theory Spec2Isabelle
  imports Complex_Main
begin

section \<open>Olive: the media input node and the audio render backend\<close>

text \<open>
  The development embeds \<^verbatim>\<open>MediaInput::Value\<close> and \<^verbatim>\<open>MediaInput::Release\<close>
  (app/node/input/media/media.cpp) as state-passing functions. The node object is a
  record, every collaborator whose code lives outside the node (current renderer,
  decoder factory, decoder, pixel service, colour service, GL blit) is a field of an
  environment record, a null pointer is \<open>None\<close>, and every call the node makes on a
  collaborator is written to a trace of events, in program order.
\<close>

subsection \<open>Data\<close>

text \<open>Time is \<^verbatim>\<open>rational\<close>, an exact fraction.\<close>

type_synonym rational = rat

text \<open>Object identities (a stream, a GL context) are addresses.\<close>

type_synonym Stream = nat
type_synonym GLContext = nat
type_synonym bytes = "nat list"

text \<open>
  Modelled from the spec: the pixel format enumeration is declared outside the
  sources at hand. The code names one member, \<^verbatim>\<open>olive::PIX_FMT_RGBA32F\<close>; every other
  member is told apart by its number.
\<close>

datatype PixelFormat = PIX_FMT_RGBA32F | PIX_FMT_OTHER nat

text \<open>\<^verbatim>\<open>olive::RenderMode\<close>: the two modes the code compares against.\<close>

datatype RenderMode = kOffline | kOnline

record Frame =
  frame_width :: int
  frame_height :: int
  frame_format :: PixelFormat
  frame_data :: bytes

text \<open>
  A footage item: \<^verbatim>\<open>decoder()\<close> is the id of its decoder kind, \<^verbatim>\<open>stream(i)\<close> a
  nullable pointer to its i-th stream (the accessor's code is not part of the node, so
  it is taken as given).
\<close>

record Footage =
  footage_decoder :: string
  footage_stream :: "int \<Rightarrow> Stream option"

text \<open>A decoder object: its kind and the stream it is bound to (\<^verbatim>\<open>stream()\<close>).\<close>

record Decoder =
  decoder_id :: string
  decoder_stream :: "Stream option"

record ColorService =
  cs_input :: string
  cs_output :: string

text \<open>
  The pipelines of \<^verbatim>\<open>olive::ShaderGenerator\<close>. \<open>OCIOPipeline\<close> is the pipeline of
  the call that lines 209 to 212 of media.cpp hold in a comment.
\<close>

datatype ShaderPipeline = DefaultPipeline | OCIOPipeline ColorService bool

datatype TextureType = kSingleBuffer | kDoubleBuffer

text \<open>
  Modelled from the spec: \<^verbatim>\<open>RenderTexture\<close> (its code is outside the sources at
  hand). A texture is created in a context with a size, a format and optional data,
  and it is created exactly while it has a context. Destroying drops the context;
  uploading replaces the data and nothing else.
\<close>

record RenderTexture =
  tex_context :: "GLContext option"
  tex_width :: int
  tex_height :: int
  tex_format :: PixelFormat
  tex_type :: TextureType
  tex_data :: "bytes option"

definition new_RenderTexture :: RenderTexture where
  "new_RenderTexture =
     \<lparr>tex_context = None, tex_width = 0, tex_height = 0, tex_format = PIX_FMT_OTHER 0,
      tex_type = kSingleBuffer, tex_data = None\<rparr>"

definition IsCreated :: "RenderTexture \<Rightarrow> bool" where
  "IsCreated t = (tex_context t \<noteq> None)"

definition Destroy :: "RenderTexture \<Rightarrow> RenderTexture" where
  "Destroy t = t\<lparr>tex_context := None\<rparr>"

definition Create ::
  "RenderTexture \<Rightarrow> GLContext \<Rightarrow> int \<Rightarrow> int \<Rightarrow> PixelFormat \<Rightarrow> TextureType \<Rightarrow> bytes option
     \<Rightarrow> RenderTexture" where
  "Create t c w h f ty d =
     t\<lparr>tex_context := Some c, tex_width := w, tex_height := h, tex_format := f,
       tex_type := ty, tex_data := d\<rparr>"

definition Upload :: "RenderTexture \<Rightarrow> bytes \<Rightarrow> RenderTexture" where
  "Upload t d = t\<lparr>tex_data := Some d\<rparr>"

text \<open>The renderer instance that \<^verbatim>\<open>RendererProcessor::CurrentInstance()\<close> hands out.\<close>

record RenderInstance =
  ri_mode :: RenderMode
  ri_context :: GLContext
  ri_width :: int
  ri_height :: int
  ri_format :: PixelFormat

text \<open>What \<^verbatim>\<open>Value\<close> returns: the integer of \<^verbatim>\<open>return 0\<close>, or a texture.\<close>

datatype QVariant = VInt int | VTexture RenderTexture

text \<open>
  The node; its members are written without the trailing underscore of the source.
  Parameters are compared by address (\<^verbatim>\<open>output == texture_output_\<close>).
  \<open>footage_input\<close> is the value of the footage input at a time, already passed
  through \<^verbatim>\<open>ValueToPtr\<close>.
\<close>

type_synonym NodeParam = nat

record MediaInput =
  footage_input :: "rational \<Rightarrow> Footage option"
  matrix_input :: NodeParam
  texture_output :: NodeParam
  decoder :: "Decoder option"
  color_service :: "ColorService option"
  pipeline :: "ShaderPipeline option"
  internal_tex :: RenderTexture
  ocio_texture :: nat

text \<open>The collaborators, as the node sees them during one call.\<close>

record Env =
  CurrentInstance :: "RenderInstance option"
  CreateFromID :: "string \<Rightarrow> Decoder option"
  Retrieve :: "Decoder \<Rightarrow> rational \<Rightarrow> Frame option"
  ConvertPixelFormat :: "Frame \<Rightarrow> PixelFormat \<Rightarrow> Frame"
  ConvertFrame :: "ColorService \<Rightarrow> Frame \<Rightarrow> Frame"
  Blit :: "ShaderPipeline \<Rightarrow> bool \<Rightarrow> RenderTexture \<Rightarrow> RenderTexture \<Rightarrow> RenderTexture"

text \<open>The calls the node makes, in the order it makes them.\<close>

datatype event =
    EvCreateFromID string
  | EvSetStream "Stream option"
  | EvRetrieve rational
  | EvConvertPixelFormat PixelFormat
  | EvConvertFrame ColorService
  | EvTexDestroy
  | EvTexCreate int int PixelFormat
  | EvTexUpload
  | EvOutputCreate
  | EvAttach
  | EvFbBind
  | EvClearColor
  | EvClear
  | EvTexBind
  | EvBlit ShaderPipeline
  | EvTexRelease
  | EvDetach
  | EvFbRelease

subsection \<open>\<^verbatim>\<open>MediaInput::Value\<close>, block by block\<close>

text \<open>
  Lines 127 to 135: take the node's decoder or create one lazily, then give it stream 0
  of the footage if it has no stream. A result without a decoder is the early return of
  line 129; the assignment of line 128 then leaves the member null.
\<close>

definition bind_decoder ::
  "Env \<Rightarrow> MediaInput \<Rightarrow> Footage \<Rightarrow> Decoder option \<times> event list" where
  "bind_decoder w n footage =
     (let (d0, ev) =
            (case decoder n of
               None \<Rightarrow> (CreateFromID w (footage_decoder footage),
                         [EvCreateFromID (footage_decoder footage)])
             | Some d \<Rightarrow> (Some d, []))
      in case d0 of
           None \<Rightarrow> (None, ev)
         | Some d \<Rightarrow>
             (if decoder_stream d = None
              then (Some (d\<lparr>decoder_stream := footage_stream footage 0\<rparr>),
                    ev @ [EvSetStream (footage_stream footage 0)])
              else (Some d, ev)))"

text \<open>
  Lines 109 to 168, up to the frame that is ready for the texture. \<open>Failed\<close> is an
  early \<^verbatim>\<open>return 0\<close> with the node as it is left, \<open>Resolved\<close> carries the renderer,
  the frame, the node and the calls so far.
\<close>

datatype resolution =
    Failed MediaInput "event list"
  | Resolved RenderInstance Frame MediaInput "event list"

definition resolve :: "Env \<Rightarrow> MediaInput \<Rightarrow> rational \<Rightarrow> resolution" where
  "resolve w n time =
     (case CurrentInstance w of
        None \<Rightarrow> Failed n []
      | Some renderer \<Rightarrow>
     (case footage_input n time of
        None \<Rightarrow> Failed n []
      | Some footage \<Rightarrow>
     (case bind_decoder w n footage of
        (None, ev1) \<Rightarrow> Failed n ev1
      | (Some d, ev1) \<Rightarrow>
     (let n1 = n\<lparr>decoder := Some d\<rparr> in
      case Retrieve w d time of
        None \<Rightarrow> Failed n1 (ev1 @ [EvRetrieve time])
      | Some frame0 \<Rightarrow>
     (let cs = (case color_service n1 of
                  None \<Rightarrow> \<lparr>cs_input = ''srgb'', cs_output = ''scene_linear''\<rparr>
                | Some c \<Rightarrow> c);
          n2 = n1\<lparr>color_service := Some cs\<rparr>
      in if ri_mode renderer = kOnline
         then Resolved renderer
                (ConvertFrame w cs (ConvertPixelFormat w frame0 PIX_FMT_RGBA32F)) n2
                (ev1 @ [EvRetrieve time, EvConvertPixelFormat PIX_FMT_RGBA32F,
                        EvConvertFrame cs])
         else Resolved renderer frame0 n2 (ev1 @ [EvRetrieve time]))))))"

text \<open>Lines 173 to 175: the test that decides whether the texture is destroyed.\<close>

definition tex_differs :: "RenderTexture \<Rightarrow> Frame \<Rightarrow> bool" where
  "tex_differs t frame =
     (tex_width t \<noteq> frame_width frame
      \<or> tex_height t \<noteq> frame_height frame
      \<or> tex_format t \<noteq> frame_format frame)"

text \<open>Lines 173 to 188: destroy on a mismatch, then create or upload.\<close>

definition ensure_texture ::
  "RenderInstance \<Rightarrow> Frame \<Rightarrow> RenderTexture \<Rightarrow> RenderTexture \<times> event list" where
  "ensure_texture renderer frame t =
     (let (t1, ev1) =
            (if tex_differs t frame then (Destroy t, [EvTexDestroy]) else (t, []))
      in if \<not> IsCreated t1
         then (Create t1 (ri_context renderer) (frame_width frame) (frame_height frame)
                 (frame_format frame) (tex_type t1) (Some (frame_data frame)),
               ev1 @ [EvTexCreate (frame_width frame) (frame_height frame)
                        (frame_format frame)])
         else (Upload t1 (frame_data frame), ev1 @ [EvTexUpload]))"

text \<open>Lines 203 to 222: the pipeline of the blit, built once and kept.\<close>

definition select_pipeline ::
  "RenderInstance \<Rightarrow> ShaderPipeline option \<Rightarrow> ShaderPipeline" where
  "select_pipeline renderer p =
     (if ri_mode renderer = kOffline
      then (case p of None \<Rightarrow> DefaultPipeline | Some q \<Rightarrow> q)
      else (case p of None \<Rightarrow> DefaultPipeline | Some q \<Rightarrow> q))"

text \<open>
  Lines 225 to 241: the calls of the draw, from attaching the output texture to the
  renderer's framebuffer to releasing the framebuffer.
\<close>

definition draw_events :: "ShaderPipeline \<Rightarrow> event list" where
  "draw_events p =
     [EvAttach, EvFbBind, EvClearColor, EvClear, EvTexBind, EvBlit p, EvTexRelease, EvDetach,
      EvFbRelease]"

text \<open>
  The whole function. It returns the value, the node after the call and the calls made.
\<close>

definition Value ::
  "Env \<Rightarrow> MediaInput \<Rightarrow> NodeParam \<Rightarrow> rational \<Rightarrow> QVariant \<times> MediaInput \<times> event list" where
  "Value w n output time =
     (if output = texture_output n
      then (case resolve w n time of
              Failed n' ev \<Rightarrow> (VInt 0, n', ev)
            | Resolved renderer frame n2 ev \<Rightarrow>
                (let (tex, ev_tex) = ensure_texture renderer frame (internal_tex n2);
                     output_texture =
                       Create new_RenderTexture (ri_context renderer) (ri_width renderer)
                         (ri_height renderer) (ri_format renderer) kDoubleBuffer None;
                     p = select_pipeline renderer (pipeline n2)
                 in (VTexture (Blit w p False tex output_texture),
                     n2\<lparr>internal_tex := tex, pipeline := Some p\<rparr>,
                     ev @ ev_tex @ [EvOutputCreate] @ draw_events p)))
      else (VInt 0, n, []))"

text \<open>
  Lines 75 to 86: \<^verbatim>\<open>MediaInput::Release\<close>. Deleting the OCIO texture is a GL call that
  leaves the members of the node as they are.
\<close>

definition Release :: "MediaInput \<Rightarrow> MediaInput" where
  "Release n =
     n\<lparr>internal_tex := Destroy (internal_tex n), decoder := None,
       color_service := None, pipeline := None\<rparr>"

text \<open>
  Lines 36 to 53: the constructor. The three parameters are added in the order footage
  input, matrix input, texture output, so their addresses are 0, 1 and 2; the footage
  input has no value yet.
\<close>

definition MediaInput_new :: MediaInput where
  "MediaInput_new =
     \<lparr>footage_input = (\<lambda>t. None), matrix_input = 1, texture_output = 2, decoder = None,
      color_service = None, pipeline = None, internal_tex = new_RenderTexture,
      ocio_texture = 0\<rparr>"

text \<open>
  Lines 98 to 101: \<^verbatim>\<open>SetFootage\<close> stores the pointer as the value of the footage
  input, which an unconnected input then has at every time.
\<close>

definition SetFootage :: "MediaInput \<Rightarrow> Footage option \<Rightarrow> MediaInput" where
  "SetFootage n f = n\<lparr>footage_input := (\<lambda>t. f)\<rparr>"

subsection \<open>Time ranges and the audio render backend\<close>

text \<open>
  Modelled from the spec: \<^verbatim>\<open>TimeRange\<close> (common/timerange.h is outside the sources at
  hand), a half-open interval of exact rational time from a start to an end.
\<close>

record TimeRange =
  range_start :: rational
  range_end :: rational

definition in_range :: "TimeRange \<Rightarrow> rational \<Rightarrow> bool" where
  "in_range r t = (range_start r \<le> t \<and> t < range_end r)"

definition valid_range :: "TimeRange \<Rightarrow> bool" where
  "valid_range r = (range_start r \<le> range_end r)"

text \<open>
  Modelled from the spec: the body of \<^verbatim>\<open>AudioRenderBackend::RangesOverlap\<close> (declared at
  line 39 of audiorenderbackend.h). The half-open intervals intersect.
\<close>

definition RangesOverlap :: "TimeRange \<Rightarrow> TimeRange \<Rightarrow> bool" where
  "RangesOverlap a b = (range_start a < range_end b \<and> range_start b < range_end a)"

definition adjacent :: "TimeRange \<Rightarrow> TimeRange \<Rightarrow> bool" where
  "adjacent a b = (range_end a = range_start b \<or> range_end b = range_start a)"

text \<open>
  Modelled from the spec: the body of \<^verbatim>\<open>AudioRenderBackend::CombineRange\<close> (declared at
  line 37 of audiorenderbackend.h). It is defined when the ranges overlap or are exactly
  adjacent and then spans from the smaller start to the larger end; on any other pair it
  is a contract violation, \<open>None\<close>.
\<close>

definition CombineRange :: "TimeRange \<Rightarrow> TimeRange \<Rightarrow> TimeRange option" where
  "CombineRange a b =
     (if RangesOverlap a b \<or> adjacent a b
      then Some \<lparr>range_start = min (range_start a) (range_start b),
                 range_end = max (range_end a) (range_end b)\<rparr>
      else None)"

text \<open>
  Modelled from the spec: the state of the audio render backend and the body of
  \<^verbatim>\<open>AudioRenderBackend::SetParameters\<close> (declared at line 19 of audiorenderbackend.h,
  whose comment asks for a stopped renderer). The backend is stopped or rendering; the
  call is an illegal-state error while it renders and replaces the parameters otherwise.
\<close>

datatype BackendState = Stopped | Rendering

record AudioRenderingParams =
  sample_rate :: int
  channel_layout :: nat
  sample_format :: nat

record AudioRenderBackend =
  backend_state :: BackendState
  params :: AudioRenderingParams
  pcm_data :: bytes

datatype backend_error = IllegalState

definition SetParameters ::
  "AudioRenderBackend \<Rightarrow> AudioRenderingParams \<Rightarrow> backend_error option \<times> AudioRenderBackend" where
  "SetParameters b p =
     (if backend_state b = Rendering then (Some IllegalState, b)
      else (None, b\<lparr>params := p\<rparr>))"

subsection \<open>Sequences of evaluations\<close>

text \<open>
  One evaluation in the life of a node: the collaborators as they are at that moment,
  the footage input as it is at that moment (it may have been set or reconnected since
  the last evaluation), the requested output and the time.
\<close>

datatype evaluation = Evaluate Env "rational \<Rightarrow> Footage option" NodeParam rational

fun run :: "evaluation list \<Rightarrow> MediaInput \<Rightarrow> MediaInput \<times> event list" where
  "run [] n = (n, [])"
| "run (Evaluate w fi output time # es) n =
     (let (r, n1, ev1) = Value w (n\<lparr>footage_input := fi\<rparr>) output time;
          (n2, ev2) = run es n1
      in (n2, ev1 @ ev2))"

subsection \<open>Transient binds in a trace\<close>

datatype bind = InternalTextureBind | FramebufferAttach | FramebufferBind

fun acquires :: "event \<Rightarrow> bind option" where
  "acquires EvTexBind = Some InternalTextureBind"
| "acquires EvAttach = Some FramebufferAttach"
| "acquires EvFbBind = Some FramebufferBind"
| "acquires _ = None"

fun releases :: "event \<Rightarrow> bind option" where
  "releases EvTexRelease = Some InternalTextureBind"
| "releases EvDetach = Some FramebufferAttach"
| "releases EvFbRelease = Some FramebufferBind"
| "releases _ = None"

text \<open>
  \<open>paired held tr\<close>: starting with the binds \<open>held\<close>, the trace acquires only what is
  not held, releases only what is held, and ends with nothing held.
\<close>

fun paired :: "bind list \<Rightarrow> event list \<Rightarrow> bool" where
  "paired held [] = (held = [])"
| "paired held (e # es) =
     (case acquires e of
        Some b \<Rightarrow> b \<notin> set held \<and> paired (b # held) es
      | None \<Rightarrow>
          (case releases e of
             Some b \<Rightarrow> b \<in> set held \<and> paired (removeAll b held) es
           | None \<Rightarrow> paired held es))"

subsection \<open>Kinds of events\<close>

text \<open>The calls of lines 109 to 168, which resolve the frame.\<close>

fun resolution_event :: "event \<Rightarrow> bool" where
  "resolution_event (EvCreateFromID i) = True"
| "resolution_event (EvSetStream s) = True"
| "resolution_event (EvRetrieve t) = True"
| "resolution_event (EvConvertPixelFormat p) = True"
| "resolution_event (EvConvertFrame c) = True"
| "resolution_event _ = False"

fun is_TexCreate :: "event \<Rightarrow> bool" where
  "is_TexCreate (EvTexCreate w h f) = True"
| "is_TexCreate _ = False"

text \<open>The calls on the decoder factory and on the decoder's stream binding.\<close>

fun decoder_event :: "event \<Rightarrow> bool" where
  "decoder_event (EvCreateFromID i) = True"
| "decoder_event (EvSetStream s) = True"
| "decoder_event _ = False"

fun is_CreateFromID :: "event \<Rightarrow> bool" where
  "is_CreateFromID (EvCreateFromID i) = True"
| "is_CreateFromID _ = False"

text \<open>A call of \<^verbatim>\<open>set_stream\<close> with a stream, as opposed to a null pointer.\<close>

fun binds_stream :: "event \<Rightarrow> bool" where
  "binds_stream (EvSetStream (Some s)) = True"
| "binds_stream _ = False"

text \<open>The node and the trace of a resolution, whichever way it ended.\<close>

fun resolution_node :: "resolution \<Rightarrow> MediaInput" where
  "resolution_node (Failed n ev) = n"
| "resolution_node (Resolved r f n ev) = n"

fun resolution_trace :: "resolution \<Rightarrow> event list" where
  "resolution_trace (Failed n ev) = ev"
| "resolution_trace (Resolved r f n ev) = ev"

text \<open>
  The footage with which the call reaches the decoder block at line 127, if it gets
  there: there is a renderer and the footage input resolves.
\<close>

definition reached_footage :: "Env \<Rightarrow> MediaInput \<Rightarrow> rational \<Rightarrow> Footage option" where
  "reached_footage w n time =
     (case CurrentInstance w of None \<Rightarrow> None | Some renderer \<Rightarrow> footage_input n time)"

text \<open>A trace is quiet when it neither acquires nor releases a bind.\<close>

definition quiet :: "event list \<Rightarrow> bool" where
  "quiet evs = (\<forall>e \<in> set evs. acquires e = None \<and> releases e = None)"

subsection \<open>Sample objects\<close>

definition sample_frame :: Frame where
  "sample_frame =
     \<lparr>frame_width = 4, frame_height = 2, frame_format = PIX_FMT_OTHER 1,
      frame_data = [1, 2, 3]\<rparr>"

definition sample_footage :: Footage where
  "sample_footage =
     \<lparr>footage_decoder = ''ffmpeg'',
      footage_stream = (\<lambda>i. if i = 0 then Some 7 else None)\<rparr>"

text \<open>A footage item of a kind that has no decoder.\<close>

definition unknown_footage :: Footage where
  "unknown_footage = sample_footage\<lparr>footage_decoder := ''raw''\<rparr>"

text \<open>Another footage item of the same kind, whose streams all are stream 9.\<close>

definition other_footage :: Footage where
  "other_footage = \<lparr>footage_decoder = ''ffmpeg'', footage_stream = (\<lambda>i. Some 9)\<rparr>"

definition sample_renderer :: "RenderMode \<Rightarrow> RenderInstance" where
  "sample_renderer m =
     \<lparr>ri_mode = m, ri_context = 1, ri_width = 16, ri_height = 9,
      ri_format = PIX_FMT_OTHER 2\<rparr>"

text \<open>
  Sample collaborators: only the kind ffmpeg has a decoder, a decoder bound to stream 7
  has the sample frame at every time from 0 on, the colour transform adds one to every
  byte, and the blit copies the data of the source.
\<close>

definition sample_env :: "RenderInstance option \<Rightarrow> Env" where
  "sample_env ri =
     \<lparr>CurrentInstance = ri,
      CreateFromID =
        (\<lambda>i. if i = ''ffmpeg'' then Some \<lparr>decoder_id = i, decoder_stream = None\<rparr> else None),
      Retrieve = (\<lambda>d t. if decoder_stream d = Some 7 \<and> 0 \<le> t then Some sample_frame else None),
      ConvertPixelFormat = (\<lambda>f p. f\<lparr>frame_format := p\<rparr>),
      ConvertFrame = (\<lambda>c f. f\<lparr>frame_data := map Suc (frame_data f)\<rparr>),
      Blit = (\<lambda>p flip src dst. dst\<lparr>tex_data := tex_data src\<rparr>)\<rparr>"

text \<open>
  The sample node with the sample footage set, and the same node after one evaluation of
  its texture output at time 0 in offline mode.
\<close>

definition sample_node :: MediaInput where
  "sample_node = SetFootage MediaInput_new (Some sample_footage)"

definition warm_node :: MediaInput where
  "warm_node =
     fst (snd (Value (sample_env (Some (sample_renderer kOffline))) sample_node
                (texture_output sample_node) 0))"

text \<open>A backend in the middle of a render, and parameters to set.\<close>

definition sample_params :: "int \<Rightarrow> AudioRenderingParams" where
  "sample_params rate = \<lparr>sample_rate = rate, channel_layout = 3, sample_format = 1\<rparr>"

definition rendering_backend :: AudioRenderBackend where
  "rendering_backend =
     \<lparr>backend_state = Rendering, params = sample_params 48000, pcm_data = [0, 1]\<rparr>"

section \<open>Basic facts\<close>

lemmas texture_defs = new_RenderTexture_def IsCreated_def Destroy_def Create_def Upload_def

lemmas Value_defs =
  Value_def resolve_def bind_decoder_def ensure_texture_def tex_differs_def
  select_pipeline_def draw_events_def Let_def

lemmas sample_defs =
  sample_env_def sample_renderer_def sample_footage_def sample_frame_def unknown_footage_def
  SetFootage_def MediaInput_new_def

text \<open>\<open>Value\<close> on the texture output, by the outcome of the resolution.\<close>

lemma Value_Failed:
  "resolve w n time = Failed n' ev \<Longrightarrow> Value w n (texture_output n) time = (VInt 0, n', ev)"
  by (simp add: Value_def)

lemma Value_Resolved:
  "resolve w n time = Resolved r f n2 ev \<Longrightarrow>
   ensure_texture r f (internal_tex n2) = (tex, ev_tex) \<Longrightarrow>
   Value w n (texture_output n) time =
     (VTexture (Blit w (select_pipeline r (pipeline n2)) False tex
        (Create new_RenderTexture (ri_context r) (ri_width r) (ri_height r) (ri_format r)
           kDoubleBuffer None)),
      n2\<lparr>internal_tex := tex, pipeline := Some (select_pipeline r (pipeline n2))\<rparr>,
      ev @ ev_tex @ [EvOutputCreate] @ draw_events (select_pipeline r (pipeline n2)))"
  by (simp add: Value_def Let_def)

text \<open>Quiet traces.\<close>

lemma quiet_simps [simp]:
  "quiet []"
  "quiet (e # evs) = (acquires e = None \<and> releases e = None \<and> quiet evs)"
  "quiet (xs @ ys) = (quiet xs \<and> quiet ys)"
  by (auto simp: quiet_def)

lemma paired_quiet_prefix: "quiet evs \<Longrightarrow> paired held (evs @ rest) = paired held rest"
  by (induction evs) auto

lemma bind_decoder_events:
  "bind_decoder w n footage = (d, ev) \<Longrightarrow> list_all resolution_event ev"
  by (auto simp: bind_decoder_def Let_def split: option.splits if_splits)

lemma resolve_Failed_events:
  "resolve w n time = Failed n' ev \<Longrightarrow> list_all resolution_event ev"
  by (auto simp: resolve_def Let_def split: option.splits if_splits prod.splits
      dest: bind_decoder_events)

lemma resolve_Resolved_events:
  "resolve w n time = Resolved r f n2 ev \<Longrightarrow> list_all resolution_event ev"
  by (auto simp: resolve_def Let_def split: option.splits if_splits prod.splits
      dest: bind_decoder_events)

lemma resolution_event_quiet: "list_all resolution_event ev \<Longrightarrow> quiet ev"
proof -
  have "resolution_event e \<Longrightarrow> acquires e = None \<and> releases e = None" for e
    by (cases e) simp_all
  then show "list_all resolution_event ev \<Longrightarrow> quiet ev"
    by (auto simp: quiet_def list_all_iff)
qed

lemma resolution_event_no_tex:
  "list_all resolution_event ev \<Longrightarrow> e \<in> set ev \<Longrightarrow>
   e \<noteq> EvTexDestroy \<and> e \<noteq> EvTexUpload \<and> \<not> is_TexCreate e"
  by (cases e) (auto simp: list_all_iff)

lemma resolve_Failed_quiet: "resolve w n time = Failed n' ev \<Longrightarrow> quiet ev"
  by (rule resolution_event_quiet [OF resolve_Failed_events])

lemma resolve_Resolved_quiet: "resolve w n time = Resolved r f n' ev \<Longrightarrow> quiet ev"
  by (rule resolution_event_quiet [OF resolve_Resolved_events])

text \<open>The texture block, case by case.\<close>

lemma resolve_internal_tex:
  "resolve w n time = Resolved r f n2 ev \<Longrightarrow> internal_tex n2 = internal_tex n"
  by (auto simp: resolve_def Let_def split: option.splits if_splits prod.splits)

lemma ensure_texture_cases:
  "ensure_texture r f t =
     (if tex_differs t f
      then (Create (Destroy t) (ri_context r) (frame_width f) (frame_height f) (frame_format f)
              (tex_type t) (Some (frame_data f)),
            [EvTexDestroy, EvTexCreate (frame_width f) (frame_height f) (frame_format f)])
      else if IsCreated t then (Upload t (frame_data f), [EvTexUpload])
      else (Create t (ri_context r) (frame_width f) (frame_height f) (frame_format f)
              (tex_type t) (Some (frame_data f)),
            [EvTexCreate (frame_width f) (frame_height f) (frame_format f)]))"
  by (simp add: ensure_texture_def texture_defs)

lemma ensure_texture_quiet: "ensure_texture r f t = (t', ev) \<Longrightarrow> quiet ev"
  by (auto simp: ensure_texture_cases split: if_splits)

text \<open>The decoder block.\<close>

lemma bind_decoder_all_decoder_events:
  "bind_decoder w n footage = (d, ev) \<Longrightarrow> filter decoder_event ev = ev"
  by (auto simp: bind_decoder_def Let_def split: option.splits if_splits)

lemma bind_decoder_bound:
  "decoder n = Some d \<Longrightarrow> decoder_stream d \<noteq> None \<Longrightarrow> bind_decoder w n footage = (Some d, [])"
  by (auto simp: bind_decoder_def)

lemma bind_decoder_present:
  assumes d: "decoder n = Some d" and b: "bind_decoder w n footage = (d', ev)"
  shows "d' \<noteq> None \<and> filter is_CreateFromID ev = []"
  using b by (auto simp: bind_decoder_def d split: if_splits)

lemma bind_decoder_binds:
  "bind_decoder w n footage = (d', ev) \<Longrightarrow>
   length (filter binds_stream ev) \<le> 1 \<and>
   (filter binds_stream ev \<noteq> [] \<longrightarrow> (\<exists>d. d' = Some d \<and> decoder_stream d \<noteq> None))"
  by (cases "footage_stream footage 0")
     (auto simp: bind_decoder_def Let_def split: if_splits option.splits)

lemma resolve_unreached:
  "reached_footage w n time = None \<Longrightarrow> resolve w n time = Failed n []"
  by (auto simp: reached_footage_def resolve_def split: option.splits)

lemma resolve_reached:
  assumes "reached_footage w n time = Some footage" and "bind_decoder w n footage = (d, ev)"
  shows "decoder (resolution_node (resolve w n time))
           = (case d of None \<Rightarrow> decoder n | Some x \<Rightarrow> Some x)
         \<and> filter decoder_event (resolution_trace (resolve w n time)) = ev"
proof -
  from assms(1) obtain r where r: "CurrentInstance w = Some r" "footage_input n time = Some footage"
    by (auto simp: reached_footage_def split: option.splits)
  have ev: "filter decoder_event ev = ev"
    using assms(2) by (rule bind_decoder_all_decoder_events)
  show ?thesis
  proof (cases d)
    case None
    with r assms(2) show ?thesis by (simp add: resolve_def ev)
  next
    case (Some x)
    show ?thesis
    proof (cases "Retrieve w x time")
      case None
      with r assms(2) Some show ?thesis by (simp add: resolve_def ev)
    next
      case (Some frame0)
      with r assms(2) \<open>d = Some x\<close> show ?thesis by (simp add: resolve_def Let_def ev)
    qed
  qed
qed

lemma Value_decoder_trace:
  assumes "Value w n (texture_output n) time = (v, n', tr)"
  shows "decoder n' = decoder (resolution_node (resolve w n time))
         \<and> filter decoder_event tr = filter decoder_event (resolution_trace (resolve w n time))"
proof (cases "resolve w n time")
  case (Failed n1 ev)
  from Value_Failed [OF this] assms Failed show ?thesis by simp
next
  case (Resolved r f n2 ev)
  obtain tex ev_tex where et: "ensure_texture r f (internal_tex n2) = (tex, ev_tex)"
    by (cases "ensure_texture r f (internal_tex n2)")
  then have "filter decoder_event ev_tex = []"
    by (auto simp: ensure_texture_cases split: if_splits)
  with Value_Resolved [OF Resolved et] assms Resolved show ?thesis
    by (auto simp: draw_events_def)
qed

text \<open>The decoder over one call.\<close>

lemma Value_keeps_bound_decoder:
  assumes "Value w n output time = (v, n', tr)"
    and "decoder n = Some d" and "decoder_stream d \<noteq> None"
  shows "decoder n' = Some d \<and> filter decoder_event tr = []"
proof (cases "output = texture_output n")
  case False
  with assms(1) show ?thesis using assms(2) by (simp add: Value_def)
next
  case True
  show ?thesis
  proof (cases "reached_footage w n time")
    case None
    from resolve_unreached [OF this] Value_decoder_trace [of w n time v n' tr] assms True
    show ?thesis by simp
  next
    case (Some footage)
    from resolve_reached [OF Some bind_decoder_bound [OF assms(2,3)]]
      Value_decoder_trace [of w n time v n' tr] assms(1) True
    show ?thesis by simp
  qed
qed

lemma Value_keeps_decoder:
  assumes "Value w n output time = (v, n', tr)" and "decoder n \<noteq> None"
  shows "decoder n' \<noteq> None \<and> filter is_CreateFromID tr = []"
proof (cases "output = texture_output n")
  case False
  with assms show ?thesis by (simp add: Value_def)
next
  case True
  have sub: "filter is_CreateFromID xs = filter is_CreateFromID (filter decoder_event xs)" for xs
  proof -
    have "is_CreateFromID e \<Longrightarrow> decoder_event e" for e by (cases e) simp_all
    then show ?thesis by (induction xs) auto
  qed
  show ?thesis
  proof (cases "reached_footage w n time")
    case None
    from resolve_unreached [OF this] Value_decoder_trace [of w n time v n' tr] assms True
    show ?thesis by (simp add: sub [of tr])
  next
    case (Some footage)
    obtain d' ev where bd: "bind_decoder w n footage = (d', ev)"
      by (cases "bind_decoder w n footage")
    from assms(2) obtain d where "decoder n = Some d" by auto
    from bind_decoder_present [OF this bd] resolve_reached [OF Some bd]
      Value_decoder_trace [of w n time v n' tr] assms(1) True
    show ?thesis by (auto simp: sub [of tr])
  qed
qed

lemma Value_binds_once:
  assumes "Value w n output time = (v, n', tr)"
  shows "length (filter binds_stream tr) \<le> 1 \<and>
         (filter binds_stream tr \<noteq> [] \<longrightarrow> (\<exists>d. decoder n' = Some d \<and> decoder_stream d \<noteq> None))"
proof (cases "output = texture_output n")
  case False
  with assms show ?thesis by (simp add: Value_def)
next
  case True
  have sub: "filter binds_stream xs = filter binds_stream (filter decoder_event xs)" for xs
  proof -
    have "binds_stream e \<Longrightarrow> decoder_event e" for e by (cases e) simp_all
    then show ?thesis by (induction xs) auto
  qed
  show ?thesis
  proof (cases "reached_footage w n time")
    case None
    from resolve_unreached [OF this] Value_decoder_trace [of w n time v n' tr] assms True
    show ?thesis by (simp add: sub [of tr])
  next
    case (Some footage)
    obtain d' ev where bd: "bind_decoder w n footage = (d', ev)"
      by (cases "bind_decoder w n footage")
    from bind_decoder_binds [OF bd] resolve_reached [OF Some bd]
      Value_decoder_trace [of w n time v n' tr] assms(1) True
    show ?thesis by (auto simp: sub [of tr])
  qed
qed


text \<open>Evaluating again: each block finds what the first evaluation left.\<close>

lemma bind_decoder_cong:
  "decoder m = decoder n \<Longrightarrow> bind_decoder w m footage = bind_decoder w n footage"
  by (simp add: bind_decoder_def)

lemma bind_decoder_idem:
  assumes b: "bind_decoder w n footage = (Some x, ev)" and m: "decoder m = Some x"
  shows "fst (bind_decoder w m footage) = Some x"
proof -
  have "decoder_stream x = None \<Longrightarrow> footage_stream footage 0 = None"
    using b by (auto simp: bind_decoder_def Let_def split: option.splits if_splits)
  then have "decoder_stream x = None \<Longrightarrow> x\<lparr>decoder_stream := footage_stream footage 0\<rparr> = x"
    by simp
  then show ?thesis
    by (simp add: bind_decoder_def m)
qed

lemma resolve_Failed_again:
  assumes f: "resolve w n time = Failed n1 ev"
    and fi: "footage_input n1 = footage_input n"
  shows "\<exists>ev'. resolve w n1 time = Failed n1 ev'"
proof (cases "reached_footage w n time")
  case None
  then have "reached_footage w n1 time = None"
    by (simp add: reached_footage_def fi split: option.splits)
  from resolve_unreached [OF this] show ?thesis by blast
next
  case (Some footage)
  then obtain r where r: "CurrentInstance w = Some r" "footage_input n time = Some footage"
    by (auto simp: reached_footage_def split: option.splits)
  obtain d ev1 where bd: "bind_decoder w n footage = (d, ev1)"
    by (cases "bind_decoder w n footage")
  show ?thesis
  proof (cases d)
    case None
    with f r bd have "n1 = n" by (simp add: resolve_def)
    with f show ?thesis by blast
  next
    case (Some x)
    with f r bd have n1: "n1 = n\<lparr>decoder := Some x\<rparr>" and ret: "Retrieve w x time = None"
      by (auto simp: resolve_def Let_def split: option.splits if_splits)
    have "decoder n1 = Some x" by (simp add: n1)
    from bind_decoder_idem [OF bd [unfolded Some] this]
    obtain ev2 where "bind_decoder w n1 footage = (Some x, ev2)"
      by (cases "bind_decoder w n1 footage") auto
    with r ret fi have "resolve w n1 time = Failed (n1\<lparr>decoder := Some x\<rparr>) (ev2 @ [EvRetrieve time])"
      by (simp add: resolve_def)
    moreover have "n1\<lparr>decoder := Some x\<rparr> = n1" by (simp add: n1)
    ultimately show ?thesis by simp
  qed
qed

lemma resolve_Resolved_again:
  assumes f: "resolve w n time = Resolved r fr n2 ev"
    and fi: "footage_input m = footage_input n"
    and dm: "decoder m = decoder n2"
    and cm: "color_service m = color_service n2"
  shows "\<exists>ev'. resolve w m time = Resolved r fr m ev'"
proof -
  from f obtain r0 where r0: "CurrentInstance w = Some r0"
    by (cases "CurrentInstance w") (simp_all add: resolve_def)
  from f r0 obtain footage where fo: "footage_input n time = Some footage"
    by (cases "footage_input n time") (simp_all add: resolve_def)
  obtain d ev1 where bd: "bind_decoder w n footage = (d, ev1)"
    by (cases "bind_decoder w n footage")
  from f r0 fo bd obtain x where x: "d = Some x"
    by (cases d) (simp_all add: resolve_def)
  from f r0 fo bd x obtain frame0 where ret: "Retrieve w x time = Some frame0"
    by (cases "Retrieve w x time") (simp_all add: resolve_def)
  from f r0 fo bd x ret have "r0 = r"
    by (simp add: resolve_def Let_def split: if_splits)
  with r0 fo have rf: "CurrentInstance w = Some r" "footage_input n time = Some footage"
    by simp_all
  define cs where "cs = (case color_service n of
                  None \<Rightarrow> \<lparr>cs_input = ''srgb'', cs_output = ''scene_linear''\<rparr>
                | Some c \<Rightarrow> c)"
  from f rf bd x ret have n2: "n2 = n\<lparr>decoder := Some x, color_service := Some cs\<rparr>"
    and fr: "fr = (if ri_mode r = kOnline
                   then ConvertFrame w cs (ConvertPixelFormat w frame0 PIX_FMT_RGBA32F)
                   else frame0)"
    by (auto simp: resolve_def Let_def cs_def split: if_splits)
  have dm': "decoder m = Some x" and cm': "color_service m = Some cs"
    using dm cm by (simp_all add: n2)
  from bind_decoder_idem [OF bd [unfolded x] dm']
  obtain ev2 where bd2: "bind_decoder w m footage = (Some x, ev2)"
    by (cases "bind_decoder w m footage") auto
  have same: "m\<lparr>decoder := Some x, color_service := Some cs\<rparr> = m"
    using dm' cm' by simp
  from rf fi bd2 ret cm' same show ?thesis
    by (auto simp: resolve_def Let_def fr)
qed

lemma ensure_texture_idem:
  assumes "ensure_texture r f t = (tex, ev)"
  shows "ensure_texture r f tex = (tex, [EvTexUpload])"
  using assms
  by (auto simp: ensure_texture_cases tex_differs_def texture_defs split: if_splits)

lemma select_pipeline_idem:
  "select_pipeline r (Some (select_pipeline r p)) = select_pipeline r p"
  by (simp add: select_pipeline_def)

text \<open>The sample node after its first evaluation.\<close>

lemma warm_node_eq:
  "warm_node =
     sample_node
       \<lparr>decoder := Some \<lparr>decoder_id = ''ffmpeg'', decoder_stream = Some 7\<rparr>,
        color_service := Some \<lparr>cs_input = ''srgb'', cs_output = ''scene_linear''\<rparr>,
        pipeline := Some DefaultPipeline,
        internal_tex :=
          \<lparr>tex_context = Some 1, tex_width = 4, tex_height = 2, tex_format = PIX_FMT_OTHER 1,
           tex_type = kSingleBuffer, tex_data = Some [1, 2, 3]\<rparr>\<rparr>"
  by (simp add: warm_node_def sample_node_def Value_defs sample_defs texture_defs)

lemma paired_draw_events: "paired [] (draw_events p)"
  by (simp add: draw_events_def)

section \<open>Properties of the media input node\<close>

subsection \<open>Outputs the node does not compute\<close>

text \<open>
  C10. For every time and every output parameter other than the node's texture output,
  \<open>Value\<close> returns the integer 0; it changes nothing in the node and calls no
  collaborator.
\<close>

theorem Value_other_output:
  "output \<noteq> texture_output n \<Longrightarrow> Value w n output time = (VInt 0, n, [])"
  by (simp add: Value_def)

theorem Value_other_output_witness:
  "matrix_input MediaInput_new \<noteq> texture_output MediaInput_new
   \<and> Value (sample_env None) MediaInput_new (matrix_input MediaInput_new) (1 / 2)
       = (VInt 0, MediaInput_new, [])"
proof -
  have ne: "matrix_input MediaInput_new \<noteq> texture_output MediaInput_new"
    by (simp add: MediaInput_new_def)
  from Value_other_output [OF ne] show ?thesis
    using ne by simp
qed

subsection \<open>Failing resolution steps\<close>

text \<open>
  C1. On the texture output, at every time, \<open>Value\<close> returns the integer 0 when there
  is no current renderer instance, when the footage input resolves to no footage, when
  the node has no decoder and none can be created for the footage's decoder kind, and
  when the decoder has no frame for the time. Each failure is a branch with a value:
  nothing is thrown.
\<close>

theorem Value_failure_returns_zero:
  "(CurrentInstance w = None \<longrightarrow> fst (Value w n (texture_output n) time) = VInt 0) \<and>
   (footage_input n time = None \<longrightarrow> fst (Value w n (texture_output n) time) = VInt 0) \<and>
   (footage_input n time = Some footage \<and> decoder n = None
      \<and> CreateFromID w (footage_decoder footage) = None
      \<longrightarrow> fst (Value w n (texture_output n) time) = VInt 0) \<and>
   (footage_input n time = Some footage \<and> bind_decoder w n footage = (Some d, ev)
      \<and> Retrieve w d time = None
      \<longrightarrow> fst (Value w n (texture_output n) time) = VInt 0)"
  by (auto simp: Value_def resolve_def bind_decoder_def split: option.splits)

theorem Value_failure_returns_zero_witness:
  "fst (Value (sample_env None) MediaInput_new (texture_output MediaInput_new) 0) = VInt 0
   \<and> fst (Value (sample_env (Some (sample_renderer kOnline))) MediaInput_new
            (texture_output MediaInput_new) 0) = VInt 0
   \<and> fst (Value (sample_env (Some (sample_renderer kOnline)))
            (SetFootage MediaInput_new (Some unknown_footage))
            (texture_output (SetFootage MediaInput_new (Some unknown_footage))) 0) = VInt 0
   \<and> fst (Value (sample_env (Some (sample_renderer kOnline)))
            (SetFootage MediaInput_new (Some sample_footage))
            (texture_output (SetFootage MediaInput_new (Some sample_footage))) (- 1)) = VInt 0"
proof -
  let ?on = "sample_env (Some (sample_renderer kOnline))"
  let ?nu = "SetFootage MediaInput_new (Some unknown_footage)"
  let ?nf = "SetFootage MediaInput_new (Some sample_footage)"
  let ?d = "\<lparr>decoder_id = ''ffmpeg'', decoder_stream = Some 7\<rparr>"
  let ?ev = "[EvCreateFromID ''ffmpeg'', EvSetStream (Some 7)]"
  have a: "CurrentInstance (sample_env None) = None"
    by (simp add: sample_env_def)
  have b: "footage_input MediaInput_new 0 = None"
    by (simp add: MediaInput_new_def)
  have c: "footage_input ?nu 0 = Some unknown_footage \<and> decoder ?nu = None
           \<and> CreateFromID ?on (footage_decoder unknown_footage) = None"
    by (simp add: SetFootage_def MediaInput_new_def sample_env_def unknown_footage_def)
  have d: "footage_input ?nf (- 1) = Some sample_footage
           \<and> bind_decoder ?on ?nf sample_footage = (Some ?d, ?ev)
           \<and> Retrieve ?on ?d (- 1) = None"
    by (simp add: bind_decoder_def sample_env_def SetFootage_def MediaInput_new_def
          sample_footage_def)
  have "fst (Value (sample_env None) MediaInput_new (texture_output MediaInput_new) 0) = VInt 0"
    using Value_failure_returns_zero [of "sample_env None" MediaInput_new 0] a by blast
  moreover have "fst (Value ?on MediaInput_new (texture_output MediaInput_new) 0) = VInt 0"
    using Value_failure_returns_zero [of ?on MediaInput_new 0] b by blast
  moreover have "fst (Value ?on ?nu (texture_output ?nu) 0) = VInt 0"
    using Value_failure_returns_zero [of ?on ?nu 0 unknown_footage] c by blast
  moreover have "fst (Value ?on ?nf (texture_output ?nf) (- 1)) = VInt 0"
    using Value_failure_returns_zero [of ?on ?nf "- 1" sample_footage ?d ?ev] d by blast
  ultimately show ?thesis by blast
qed

subsection \<open>Transient binds\<close>

text \<open>
  C9. On every exit path of \<open>Value\<close> the binds are paired: the trace of the call
  acquires the framebuffer attachment, the framebuffer bind and the internal texture
  bind only while they are not held, releases each of them while it is held, and holds
  nothing when the function returns. The early returns (value 0) come before the first
  acquisition, so a failure path never returns with a bind held.
\<close>

theorem Value_binds_paired:
  "paired [] (snd (snd (Value w n output time))) \<and>
   (fst (Value w n output time) = VInt 0
      \<longrightarrow> (\<forall>e \<in> set (snd (snd (Value w n output time))). acquires e = None))"
proof (cases "output = texture_output n")
  case False
  then show ?thesis by (simp add: Value_def)
next
  case True
  show ?thesis
  proof (cases "resolve w n time")
    case (Failed n' ev)
    then have "quiet ev" by (rule resolve_Failed_quiet)
    then have "paired [] ev" and "\<forall>e \<in> set ev. acquires e = None"
      using paired_quiet_prefix [of ev "[]" "[]"] by (simp_all add: quiet_def)
    with True Value_Failed [OF Failed] show ?thesis by simp
  next
    case (Resolved r f n2 ev)
    obtain tex ev_tex where et: "ensure_texture r f (internal_tex n2) = (tex, ev_tex)"
      by (cases "ensure_texture r f (internal_tex n2)")
    have "quiet (ev @ ev_tex @ [EvOutputCreate])"
      using resolve_Resolved_quiet [OF Resolved] ensure_texture_quiet [OF et] by simp
    then have "paired [] ((ev @ ev_tex @ [EvOutputCreate]) @ draw_events p)" for p
      using paired_quiet_prefix paired_draw_events by simp
    with True Value_Resolved [OF Resolved et] show ?thesis by simp
  qed
qed

theorem Value_binds_paired_witness:
  "paired [] (snd (snd (Value (sample_env (Some (sample_renderer kOffline)))
       (SetFootage MediaInput_new (Some sample_footage)) 2 0))) \<and>
   snd (snd (Value (sample_env (Some (sample_renderer kOffline)))
       (SetFootage MediaInput_new (Some sample_footage)) 2 0)) =
     [EvCreateFromID ''ffmpeg'', EvSetStream (Some 7), EvRetrieve 0,
      EvTexDestroy, EvTexCreate 4 2 (PIX_FMT_OTHER 1), EvOutputCreate,
      EvAttach, EvFbBind, EvClearColor, EvClear, EvTexBind, EvBlit DefaultPipeline,
      EvTexRelease, EvDetach, EvFbRelease]"
proof -
  have "snd (snd (Value (sample_env (Some (sample_renderer kOffline)))
       (SetFootage MediaInput_new (Some sample_footage)) 2 0)) =
     [EvCreateFromID ''ffmpeg'', EvSetStream (Some 7), EvRetrieve 0,
      EvTexDestroy, EvTexCreate 4 2 (PIX_FMT_OTHER 1), EvOutputCreate,
      EvAttach, EvFbBind, EvClearColor, EvClear, EvTexBind, EvBlit DefaultPipeline,
      EvTexRelease, EvDetach, EvFbRelease]"
    by (simp add: Value_defs sample_defs texture_defs)
  then show ?thesis
    using Value_binds_paired [of "sample_env (Some (sample_renderer kOffline))"
        "SetFootage MediaInput_new (Some sample_footage)" 2 0]
    by simp
qed

subsection \<open>Reuse of the internal texture\<close>

text \<open>
  C7. Let \<open>f\<close> be the frame that reaches the texture block (after the conversion of the
  online path, when that path runs). \<open>Value\<close> destroys the internal texture only when
  the width, height or format of \<open>f\<close> differs from the texture's, and it then creates
  the texture anew; a texture that is already created is created again only on such a
  difference; and when all three match a created texture, the data of \<open>f\<close> is uploaded
  in place, with no destroy and no create.
\<close>

theorem Value_texture_reuse:
  assumes res: "resolve w n time = Resolved r f n2 ev"
    and val: "Value w n (texture_output n) time = (v, n', tr)"
  shows "(EvTexDestroy \<in> set tr \<longrightarrow>
            tex_differs (internal_tex n) f
            \<and> EvTexCreate (frame_width f) (frame_height f) (frame_format f) \<in> set tr) \<and>
         (IsCreated (internal_tex n) \<and> (\<exists>e \<in> set tr. is_TexCreate e) \<longrightarrow>
            tex_differs (internal_tex n) f) \<and>
         (\<not> tex_differs (internal_tex n) f \<and> IsCreated (internal_tex n) \<longrightarrow>
            EvTexUpload \<in> set tr \<and> EvTexDestroy \<notin> set tr \<and> (\<forall>e \<in> set tr. \<not> is_TexCreate e)
            \<and> internal_tex n' = Upload (internal_tex n) (frame_data f))"
proof -
  have it: "internal_tex n2 = internal_tex n"
    using res by (rule resolve_internal_tex)
  obtain tex ev_tex where et: "ensure_texture r f (internal_tex n) = (tex, ev_tex)"
    by (cases "ensure_texture r f (internal_tex n)")
  have tr: "tr = ev @ ev_tex @ [EvOutputCreate] @ draw_events (select_pipeline r (pipeline n2))"
    and n': "internal_tex n' = tex"
    using Value_Resolved [OF res, of tex ev_tex] et val it by auto
  have ev: "\<forall>e \<in> set ev. e \<noteq> EvTexDestroy \<and> e \<noteq> EvTexUpload \<and> \<not> is_TexCreate e"
    using resolution_event_no_tex [OF resolve_Resolved_events [OF res]] by blast
  show ?thesis
  proof (cases "tex_differs (internal_tex n) f")
    case True
    with et ev show ?thesis
      unfolding tr n' ensure_texture_cases by (auto simp: draw_events_def)
  next
    case False
    with et ev show ?thesis
      unfolding tr n' ensure_texture_cases by (auto simp: draw_events_def split: if_splits)
  qed
qed

theorem Value_texture_reuse_witness:
  "\<not> tex_differs (internal_tex warm_node) sample_frame \<and> IsCreated (internal_tex warm_node)
   \<and> EvTexUpload \<in> set (snd (snd (Value (sample_env (Some (sample_renderer kOffline)))
                                   warm_node (texture_output warm_node) 0)))
   \<and> EvTexDestroy \<notin> set (snd (snd (Value (sample_env (Some (sample_renderer kOffline)))
                                   warm_node (texture_output warm_node) 0)))"
proof -
  let ?w = "sample_env (Some (sample_renderer kOffline))"
  let ?n2 = "warm_node"
  let ?ev = "[EvRetrieve 0]"
  have res: "resolve ?w warm_node 0 = Resolved (sample_renderer kOffline) sample_frame ?n2 ?ev"
    by (simp add: warm_node_eq sample_node_def resolve_def bind_decoder_def sample_defs)
  obtain v n' tr where val: "Value ?w warm_node (texture_output warm_node) 0 = (v, n', tr)"
    by (cases "Value ?w warm_node (texture_output warm_node) 0")
  have pre: "\<not> tex_differs (internal_tex warm_node) sample_frame
             \<and> IsCreated (internal_tex warm_node)"
    by (simp add: warm_node_eq tex_differs_def IsCreated_def sample_frame_def)
  from Value_texture_reuse [OF res val] pre
  have "EvTexUpload \<in> set tr \<and> EvTexDestroy \<notin> set tr" by blast
  with pre val show ?thesis by simp
qed

subsection \<open>The decoder and its stream\<close>

text \<open>
  C8. Over any sequence of evaluations of a node, whatever the collaborators, the
  footage input, the requested output and the time of each: \<^verbatim>\<open>set_stream\<close> is called
  with a stream at most once; a node that has a decoder never asks the factory for
  another; and once the node's decoder has a stream, every later evaluation leaves that
  decoder and its stream as they are and calls neither the factory nor
  \<^verbatim>\<open>set_stream\<close>.
\<close>

theorem Value_binds_decoder_once:
  assumes "run es n = (n', tr)"
  shows "length (filter binds_stream tr) \<le> 1 \<and>
         (decoder n \<noteq> None \<longrightarrow> filter is_CreateFromID tr = []) \<and>
         (\<forall>d. decoder n = Some d \<and> decoder_stream d \<noteq> None \<longrightarrow>
                decoder n' = Some d \<and> filter decoder_event tr = [])"
  using assms
proof (induction es arbitrary: n n' tr)
  case Nil
  then show ?case by simp
next
  case (Cons e es)
  obtain w fi out time where e: "e = Evaluate w fi out time"
    by (cases e)
  obtain v n1 ev1 where val: "Value w (n\<lparr>footage_input := fi\<rparr>) out time = (v, n1, ev1)"
    by (cases "Value w (n\<lparr>footage_input := fi\<rparr>) out time")
  obtain n2 ev2 where rest: "run es n1 = (n2, ev2)"
    by (cases "run es n1")
  from Cons.prems e val rest have n': "n' = n2" and tr: "tr = ev1 @ ev2"
    by simp_all
  note IH = Cons.IH [OF rest]
  have dec: "decoder (n\<lparr>footage_input := fi\<rparr>) = decoder n" by simp
  have bound: "decoder n' = Some d \<and> filter decoder_event tr = []"
    if "decoder n = Some d" "decoder_stream d \<noteq> None" for d
  proof -
    from Value_keeps_bound_decoder [OF val] that
    have "decoder n1 = Some d" "filter decoder_event ev1 = []" by simp_all
    with IH that(2) show ?thesis by (simp add: n' tr)
  qed
  have created: "filter is_CreateFromID tr = []" if "decoder n \<noteq> None"
  proof -
    from Value_keeps_decoder [OF val] that
    have "decoder n1 \<noteq> None" "filter is_CreateFromID ev1 = []" by simp_all
    with IH show ?thesis by (simp add: tr)
  qed
  have once: "length (filter binds_stream tr) \<le> 1"
  proof (cases "filter binds_stream ev1 = []")
    case True
    with IH show ?thesis by (simp add: tr)
  next
    case False
    with Value_binds_once [OF val] obtain d where
      d: "decoder n1 = Some d" "decoder_stream d \<noteq> None"
      and l: "length (filter binds_stream ev1) \<le> 1" by blast
    from IH d have "filter decoder_event ev2 = []" by blast
    then have "filter binds_stream ev2 = []"
      by (auto simp: filter_empty_conv elim!: binds_stream.elims)
    with l show ?thesis by (simp add: tr)
  qed
  from bound created once show ?case by blast
qed

theorem Value_binds_decoder_once_witness:
  "decoder warm_node = Some \<lparr>decoder_id = ''ffmpeg'', decoder_stream = Some 7\<rparr>
   \<and> decoder (fst (run [Evaluate (sample_env (Some (sample_renderer kOnline)))
                          (\<lambda>t. Some other_footage) 2 0,
                        Evaluate (sample_env None) (\<lambda>t. None) 2 1] warm_node))
       = Some \<lparr>decoder_id = ''ffmpeg'', decoder_stream = Some 7\<rparr>
   \<and> filter decoder_event
         (snd (run [Evaluate (sample_env (Some (sample_renderer kOnline)))
                      (\<lambda>t. Some other_footage) 2 0,
                    Evaluate (sample_env None) (\<lambda>t. None) 2 1] warm_node)) = []"
proof -
  let ?es = "[Evaluate (sample_env (Some (sample_renderer kOnline)))
                (\<lambda>t. Some other_footage) 2 0,
              Evaluate (sample_env None) (\<lambda>t. None) 2 1]"
  let ?d = "\<lparr>decoder_id = ''ffmpeg'', decoder_stream = Some 7\<rparr>"
  have r: "run ?es warm_node = (fst (run ?es warm_node), snd (run ?es warm_node))"
    by simp
  have d: "decoder warm_node = Some ?d \<and> decoder_stream ?d \<noteq> None"
    by (simp add: warm_node_eq)
  from Value_binds_decoder_once [OF r] d show ?thesis by blast
qed

text \<open>
  \<open>Release\<close> is no evaluation: it drops the decoder with the rest of what the node
  keeps, and the evaluation after it creates and binds a new one.
\<close>

lemma Release_drops:
  "decoder (Release n) = None \<and> color_service (Release n) = None
   \<and> pipeline (Release n) = None \<and> \<not> IsCreated (internal_tex (Release n))"
  by (simp add: Release_def texture_defs)

lemma Release_then_binds_anew:
  "decoder (fst (snd (Value (sample_env (Some (sample_renderer kOffline)))
                       (SetFootage (Release warm_node) (Some other_footage)) 2 0)))
     = Some \<lparr>decoder_id = ''ffmpeg'', decoder_stream = Some 9\<rparr>"
  by (simp add: warm_node_eq sample_node_def Release_def other_footage_def Value_defs
        sample_defs texture_defs)

subsection \<open>Evaluating twice\<close>

text \<open>
  C6, as amended. Take two consecutive evaluations of the same output of the same node
  at the same time, with the footage input unchanged, the same current renderer instance
  and collaborators (decoder factory, decoder, pixel service, colour service, blit) that
  answer the second time as they did the first, and nothing (no \<open>Release\<close>) touching
  the node between the two. Then the second evaluation returns the value the first one
  returned. The first evaluation may change the node (it binds a
  decoder, builds the colour service and the pipeline, fills the internal texture), and
  the second one starts from the node the first one left.
\<close>

theorem Value_repeat:
  "fst (Value w (fst (snd (Value w n output time))) output time) = fst (Value w n output time)"
proof (cases "output = texture_output n")
  case False
  then show ?thesis by (simp add: Value_def)
next
  case True
  show ?thesis
  proof (cases "resolve w n time")
    case (Failed n1 ev)
    then have fi: "footage_input n1 = footage_input n" and t: "texture_output n1 = texture_output n"
      by (auto simp: resolve_def Let_def split: option.splits if_splits prod.splits)
    from resolve_Failed_again [OF Failed fi] obtain ev' where "resolve w n1 time = Failed n1 ev'"
      by blast
    from Value_Failed [OF this] Value_Failed [OF Failed] True t show ?thesis by simp
  next
    case (Resolved r f n2 ev)
    obtain tex ev_tex where et: "ensure_texture r f (internal_tex n2) = (tex, ev_tex)"
      by (cases "ensure_texture r f (internal_tex n2)")
    let ?p = "select_pipeline r (pipeline n2)"
    let ?m = "n2\<lparr>internal_tex := tex, pipeline := Some ?p\<rparr>"
    note first = Value_Resolved [OF Resolved et]
    from Resolved have fi: "footage_input n2 = footage_input n"
      and t: "texture_output n2 = texture_output n"
      by (auto simp: resolve_def Let_def split: option.splits if_splits prod.splits)
    have "\<exists>ev'. resolve w ?m time = Resolved r f ?m ev'"
      by (rule resolve_Resolved_again [OF Resolved]) (simp_all add: fi)
    then obtain ev' where again: "resolve w ?m time = Resolved r f ?m ev'" by blast
    have et2: "ensure_texture r f (internal_tex ?m) = (tex, [EvTexUpload])"
      using ensure_texture_idem [OF et] by simp
    from Value_Resolved [OF again et2] first True t show ?thesis
      by (simp add: select_pipeline_idem)
  qed
qed

theorem Value_repeat_witness:
  "fst (Value (sample_env (Some (sample_renderer kOffline))) warm_node
          (texture_output sample_node) 0)
     = VTexture \<lparr>tex_context = Some 1, tex_width = 16, tex_height = 9,
                 tex_format = PIX_FMT_OTHER 2, tex_type = kDoubleBuffer,
                 tex_data = Some [1, 2, 3]\<rparr>"
proof -
  let ?w = "sample_env (Some (sample_renderer kOffline))"
  have first: "fst (Value ?w sample_node (texture_output sample_node) 0)
     = VTexture \<lparr>tex_context = Some 1, tex_width = 16, tex_height = 9,
                 tex_format = PIX_FMT_OTHER 2, tex_type = kDoubleBuffer,
                 tex_data = Some [1, 2, 3]\<rparr>"
    by (simp add: sample_node_def Value_defs sample_defs texture_defs)
  from Value_repeat [of ?w sample_node "texture_output sample_node" 0] first
  show ?thesis by (simp add: warm_node_def)
qed

text \<open>
  C6, as stated, fails on two consecutive evaluations of one node, for the same output
  at the same time and with the footage input unchanged between them, when the current
  renderer instance is not the same in both: an evaluation without a current renderer
  instance returns 0 and the next one, with a renderer, returns a texture; and an
  evaluation in online mode and the next one in offline mode return textures with
  different data.
\<close>

theorem Value_depends_on_renderer:
  "footage_input
       (fst (snd (Value (sample_env None) sample_node (texture_output sample_node) 0)))
     = footage_input sample_node
   \<and> fst (Value (sample_env (Some (sample_renderer kOffline)))
          (fst (snd (Value (sample_env None) sample_node (texture_output sample_node) 0)))
          (texture_output sample_node) 0)
     \<noteq> fst (Value (sample_env None) sample_node (texture_output sample_node) 0)
   \<and> footage_input
       (fst (snd (Value (sample_env (Some (sample_renderer kOnline))) sample_node
                    (texture_output sample_node) 0)))
     = footage_input sample_node
   \<and> fst (Value (sample_env (Some (sample_renderer kOffline)))
          (fst (snd (Value (sample_env (Some (sample_renderer kOnline))) sample_node
                       (texture_output sample_node) 0)))
          (texture_output sample_node) 0)
     \<noteq> fst (Value (sample_env (Some (sample_renderer kOnline))) sample_node
              (texture_output sample_node) 0)"
  by (simp add: sample_node_def Value_defs sample_defs texture_defs)

subsection \<open>The colour transform in the two render modes\<close>

text \<open>The pipeline of the blit does not depend on the render mode.\<close>

lemma select_pipeline_any_mode:
  "select_pipeline r p = (case p of None \<Rightarrow> DefaultPipeline | Some q \<Rightarrow> q)"
  by (simp add: select_pipeline_def)

text \<open>
  C2 at a concrete input. In online mode the frame is converted to RGBA32F and
  transformed by the colour service before the texture is created from it, as the claim
  says. In offline mode the frame is uploaded as the decoder gave it, and the blit runs
  the default pipeline, the one the online path uses: on a node without a pipeline the
  code builds \<open>DefaultPipeline\<close> (line 217), so no colour transform takes place, neither
  on the CPU nor in the blit.
\<close>

theorem Value_offline_default_pipeline:
  "snd (snd (Value (sample_env (Some (sample_renderer kOnline))) sample_node
               (texture_output sample_node) 0))
     = [EvCreateFromID ''ffmpeg'', EvSetStream (Some 7), EvRetrieve 0,
        EvConvertPixelFormat PIX_FMT_RGBA32F,
        EvConvertFrame \<lparr>cs_input = ''srgb'', cs_output = ''scene_linear''\<rparr>,
        EvTexDestroy, EvTexCreate 4 2 PIX_FMT_RGBA32F, EvOutputCreate,
        EvAttach, EvFbBind, EvClearColor, EvClear, EvTexBind, EvBlit DefaultPipeline,
        EvTexRelease, EvDetach, EvFbRelease]
   \<and> snd (snd (Value (sample_env (Some (sample_renderer kOffline))) sample_node
               (texture_output sample_node) 0))
     = [EvCreateFromID ''ffmpeg'', EvSetStream (Some 7), EvRetrieve 0,
        EvTexDestroy, EvTexCreate 4 2 (PIX_FMT_OTHER 1), EvOutputCreate,
        EvAttach, EvFbBind, EvClearColor, EvClear, EvTexBind, EvBlit DefaultPipeline,
        EvTexRelease, EvDetach, EvFbRelease]
   \<and> pipeline warm_node = Some DefaultPipeline
   \<and> tex_data (internal_tex warm_node) = Some (frame_data sample_frame)"
  by (simp add: warm_node_eq sample_node_def Value_defs sample_defs texture_defs)

section \<open>Properties of the audio render backend\<close>

subsection \<open>Range algebra\<close>

text \<open>
  C3. \<open>RangesOverlap a b\<close> is true exactly when the start of \<open>a\<close> is before the end of
  \<open>b\<close> and the start of \<open>b\<close> is before the end of \<open>a\<close>. Whenever the two ranges
  overlap or are exactly adjacent, \<open>CombineRange a b\<close> is the one range from the smaller
  start to the larger end; that range starts no later and ends no earlier than either
  of \<open>a\<close> and \<open>b\<close>, so every time of \<open>a\<close> or of \<open>b\<close> lies in it; and for ranges
  whose start is not after their end it holds nothing else: every time in it lies in
  \<open>a\<close> or in \<open>b\<close>.
\<close>

theorem CombineRange_spans:
  "(RangesOverlap a b \<longleftrightarrow> range_start a < range_end b \<and> range_start b < range_end a) \<and>
   (RangesOverlap a b \<or> adjacent a b \<longrightarrow>
      (\<exists>c. CombineRange a b = Some c
         \<and> range_start c = min (range_start a) (range_start b)
         \<and> range_end c = max (range_end a) (range_end b)
         \<and> range_start c \<le> range_start a \<and> range_end a \<le> range_end c
         \<and> range_start c \<le> range_start b \<and> range_end b \<le> range_end c
         \<and> (\<forall>t. in_range a t \<or> in_range b t \<longrightarrow> in_range c t)
         \<and> (valid_range a \<and> valid_range b
              \<longrightarrow> (\<forall>t. in_range c t \<longrightarrow> in_range a t \<or> in_range b t))))"
proof -
  let ?c = "\<lparr>range_start = min (range_start a) (range_start b),
             range_end = max (range_end a) (range_end b)\<rparr>"
  have inside: "in_range a t \<or> in_range b t \<longrightarrow> in_range ?c t" for t
    by (auto simp: in_range_def)
  have exact: "in_range a t \<or> in_range b t"
    if "RangesOverlap a b \<or> adjacent a b" "valid_range a" "valid_range b" "in_range ?c t" for t
    using that
    by (auto simp: RangesOverlap_def adjacent_def valid_range_def in_range_def min_def max_def
        split: if_splits)
  have "CombineRange a b = Some ?c" if "RangesOverlap a b \<or> adjacent a b"
    using that by (simp add: CombineRange_def)
  with inside exact show ?thesis
    by (auto simp: RangesOverlap_def)
qed

theorem CombineRange_spans_witness:
  "adjacent \<lparr>range_start = 5, range_end = 10\<rparr> \<lparr>range_start = 10, range_end = 15\<rparr>
   \<and> CombineRange \<lparr>range_start = 5, range_end = 10\<rparr> \<lparr>range_start = 10, range_end = 15\<rparr>
       = Some \<lparr>range_start = 5, range_end = 15\<rparr>
   \<and> RangesOverlap \<lparr>range_start = 0, range_end = 7 / 2\<rparr> \<lparr>range_start = 3, range_end = 4\<rparr>
   \<and> CombineRange \<lparr>range_start = 0, range_end = 7 / 2\<rparr> \<lparr>range_start = 3, range_end = 4\<rparr>
       = Some \<lparr>range_start = 0, range_end = 4\<rparr>"
proof -
  let ?a = "\<lparr>range_start = 5, range_end = 10\<rparr> :: TimeRange"
  let ?b = "\<lparr>range_start = 10, range_end = 15\<rparr> :: TimeRange"
  let ?c = "\<lparr>range_start = 0, range_end = 7 / 2\<rparr> :: TimeRange"
  let ?d = "\<lparr>range_start = 3, range_end = 4\<rparr> :: TimeRange"
  have adj: "adjacent ?a ?b" by (simp add: adjacent_def)
  have ov: "RangesOverlap ?c ?d" by (simp add: RangesOverlap_def)
  from CombineRange_spans [of ?a ?b] adj
  obtain c where "CombineRange ?a ?b = Some c" "range_start c = 5" "range_end c = 15"
    by auto
  then have 1: "CombineRange ?a ?b = Some \<lparr>range_start = 5, range_end = 15\<rparr>"
    by (cases c) simp
  from CombineRange_spans [of ?c ?d] ov
  obtain c where "CombineRange ?c ?d = Some c" "range_start c = 0" "range_end c = 4"
    by auto
  then have 2: "CombineRange ?c ?d = Some \<lparr>range_start = 0, range_end = 4\<rparr>"
    by (cases c) simp
  from adj ov 1 2 show ?thesis by blast
qed

subsection \<open>Setting parameters while rendering\<close>

text \<open>
  C5. When \<open>SetParameters\<close> is called on a backend that is in the rendering state, the
  call fails with the illegal-state error and the backend, its parameters included, is
  as it was before the call.
\<close>

theorem SetParameters_while_rendering:
  "backend_state b = Rendering \<Longrightarrow>
   fst (SetParameters b p) = Some IllegalState \<and> snd (SetParameters b p) = b
   \<and> params (snd (SetParameters b p)) = params b"
  by (simp add: SetParameters_def)

theorem SetParameters_while_rendering_witness:
  "backend_state rendering_backend = Rendering
   \<and> fst (SetParameters rendering_backend (sample_params 44100)) = Some IllegalState
   \<and> params (snd (SetParameters rendering_backend (sample_params 44100))) = sample_params 48000"
proof -
  have r: "backend_state rendering_backend = Rendering"
    by (simp add: rendering_backend_def)
  from SetParameters_while_rendering [OF r, of "sample_params 44100"] r
  show ?thesis by (simp add: rendering_backend_def)
qed

end
